theory Spec2Isabelle
  imports
    Complex_Main
    "HOL-Library.Finite_Map"
    "HOL-Library.FSet"
    "HOL-Library.Multiset"
    "HOL-Library.Char_ord"
    "HOL-Library.List_Lexorder"
    "HOL-Library.Word"
begin

section \<open>The stock watcher: data model\<close>

text \<open>
  The program keeps one value of type \<open>stockwatcher\<close>. Its field \<open>quotes\<close> is a Go
  \<^verbatim>\<open>map[string]map[string]float64\<close>: a finite map from symbols to inner finite maps,
  whose keys are the strings \<^verbatim>\<open>"previous"\<close> and \<^verbatim>\<open>"current"\<close>.
  The field \<open>interval\<close> is a \<^verbatim>\<open>time.Duration\<close>, a signed 64-bit count of
  nanoseconds. The mutex \<open>m\<close> is not a field of the model: every method that takes it
  holds it for its whole body, so each method is one atomic state transformer.

  A \<^verbatim>\<open>float64\<close> price is modelled by the real number it denotes. The only values the
  program ever stores are the constant \<open>0.00\<close> and results of \<^verbatim>\<open>strconv.ParseFloat\<close>
  returned without an error, so no NaN and no infinity reaches the store. \<open>ParseFloat\<close>
  below rounds to the nearest \<^verbatim>\<open>float64\<close>; comparisons of stored values are exact.
\<close>

type_synonym price_map = "(string, real) fmap"

record stockwatcher =
  quotes :: "(string, price_map) fmap"
  interval :: "64 word"

text \<open>
  Reading a Go map at a missing key gives the zero value of the element type: \<open>0\<close> for
  \<^verbatim>\<open>float64\<close>, and the nil map for \<^verbatim>\<open>map[string]float64\<close>, which reads like
  the empty map.
\<close>

definition price_at :: "price_map \<Rightarrow> string \<Rightarrow> real" where
  "price_at m f = (case fmlookup m f of None \<Rightarrow> 0 | Some v \<Rightarrow> v)"

definition quotes_at :: "(string, price_map) fmap \<Rightarrow> string \<Rightarrow> price_map" where
  "quotes_at q symbol = (case fmlookup q symbol of None \<Rightarrow> fmempty | Some m \<Rightarrow> m)"

definition current :: "stockwatcher \<Rightarrow> string \<Rightarrow> real" where
  "current t symbol = price_at (quotes_at (quotes t) symbol) ''current''"

definition previous :: "stockwatcher \<Rightarrow> string \<Rightarrow> real" where
  "previous t symbol = price_at (quotes_at (quotes t) symbol) ''previous''"

definition registered :: "stockwatcher \<Rightarrow> string \<Rightarrow> bool" where
  "registered t symbol = (symbol |\<in>| fmdom (quotes t))"

definition NewStockWatcher :: "64 word \<Rightarrow> stockwatcher" where
  "NewStockWatcher i = \<lparr>quotes = fmempty, interval = i\<rparr>"

definition add :: "string \<Rightarrow> stockwatcher \<Rightarrow> stockwatcher" where
  "add symbol t =
     (if symbol |\<in>| fmdom (quotes t) then t
      else t\<lparr>quotes := fmupd symbol fmempty (quotes t)\<rparr>)"

definition updateStock :: "string \<Rightarrow> real \<Rightarrow> stockwatcher \<Rightarrow> stockwatcher" where
  "updateStock symbol price t =
     t\<lparr>quotes :=
         fmupd symbol
           (fmap_of_list
              [(''previous'', price_at (quotes_at (quotes t) symbol) ''current''),
               (''current'', price)])
           (quotes t)\<rparr>"

section \<open>The price pattern\<close>

text \<open>
  The program compiles one regular expression, \<^verbatim>\<open>^\d.+\.\d{2}\<close>, and applies
  \<^verbatim>\<open>re.FindString\<close> to the raw price field. Go's \<^verbatim>\<open>regexp\<close> returns the match a
  backtracking matcher finds first, so a greedy \<open>+\<close> first tries to take one more
  character and gives characters back only when the rest of the pattern fails. The
  pattern is a sequence of character classes, each taken once or one-or-more times; the
  matcher below runs such a sequence against the start of a string (the anchor \<open>^\<close>) and
  returns the matched prefix.

  Strings are byte strings. The class \<^verbatim>\<open>\d\<close> is the ASCII digits; \<^verbatim>\<open>.\<close> is every
  character but the newline, and since the byte after \<^verbatim>\<open>.+\<close> must be the ASCII dot,
  matching bytes instead of UTF-8 runes gives the same prefix.
\<close>

datatype quantifier = Once | Plus

type_synonym pattern = "((char \<Rightarrow> bool) \<times> quantifier) list"

fun match_prefix :: "pattern \<Rightarrow> string \<Rightarrow> string option" where
  "match_prefix [] s = Some []"
| "match_prefix ((cls, q) # r) [] = None"
| "match_prefix ((cls, Once) # r) (c # cs) =
     (if cls c then map_option ((#) c) (match_prefix r cs) else None)"
| "match_prefix ((cls, Plus) # r) (c # cs) =
     (if cls c then
        (case match_prefix ((cls, Plus) # r) cs of
           Some m \<Rightarrow> Some (c # m)
         | None \<Rightarrow> map_option ((#) c) (match_prefix r cs))
      else None)"

definition isDigit :: "char \<Rightarrow> bool" where
  "isDigit c = (c \<in> set ''0123456789'')"

definition anyChar :: "char \<Rightarrow> bool" where
  "anyChar c = (c \<noteq> CHR 0x0A)"

definition isDot :: "char \<Rightarrow> bool" where
  "isDot c = (c = CHR ''.'')"

definition re :: pattern where
  "re = [(isDigit, Once), (anyChar, Plus), (isDot, Once), (isDigit, Once), (isDigit, Once)]"

definition FindString :: "pattern \<Rightarrow> string \<Rightarrow> string" where
  "FindString pat s = (case match_prefix pat s of None \<Rightarrow> [] | Some m \<Rightarrow> m)"

section \<open>Parsing a price\<close>

text \<open>
  \<^verbatim>\<open>strconv.ParseFloat(p, 64)\<close> on decimal text, after the library's \<^verbatim>\<open>readFloat\<close>: an
  optional sign; a mantissa of digits with at most one dot and at least one digit; an
  optional exponent, which is \<^verbatim>\<open>e\<close> or \<^verbatim>\<open>E\<close>, an optional sign and digits. The
  character \<^verbatim>\<open>_\<close> is skipped wherever the mantissa or the exponent goes on, and is then
  checked by \<^verbatim>\<open>underscoreOK\<close>: each one must stand between two digits. The whole text
  must be used up. The result is the \<^verbatim>\<open>float64\<close> nearest to the decimal value, ties
  going to the even mantissa; a value that rounds beyond the largest \<^verbatim>\<open>float64\<close> is a
  range error. Every other text is a syntax error here, the empty string among them.

  Two forms of the library are outside this model and count as syntax errors in it:
  hexadecimal mantissas (\<^verbatim>\<open>0x\<close>...), which need a binary exponent \<^verbatim>\<open>p\<close> at their end,
  and the words for infinity and NaN, which start with a letter or a sign. The program
  applies \<open>ParseFloat\<close> only to what \<open>FindString\<close> returns for its pattern: the empty
  string, or a text that starts with a decimal digit and ends in a dot and two digits.
  Neither form is among these.
\<close>

definition digitVal :: "char \<Rightarrow> nat" where
  "digitVal c = of_char c - 48"

definition decimalValue :: "string \<Rightarrow> nat" where
  "decimalValue ds = foldl (\<lambda>n c. 10 * n + digitVal c) 0 ds"

definition mantChar :: "char \<Rightarrow> bool" where
  "mantChar c = (isDigit c \<or> c = CHR ''_'')"

text \<open>
  \<^verbatim>\<open>underscoreOK\<close>, with its variable \<open>saw\<close>: \<^verbatim>\<open>^\<close> at the beginning, \<^verbatim>\<open>0\<close> after a
  digit or a base prefix, \<^verbatim>\<open>_\<close> after an underscore, \<^verbatim>\<open>!\<close> after anything else.
\<close>

definition isHexLetter :: "char \<Rightarrow> bool" where
  "isHexLetter c = (c \<in> set ''abcdefABCDEF'')"

fun underscoreScan :: "bool \<Rightarrow> char \<Rightarrow> string \<Rightarrow> bool" where
  "underscoreScan hex saw [] = (saw \<noteq> CHR ''_'')"
| "underscoreScan hex saw (c # cs) =
     (if isDigit c \<or> (hex \<and> isHexLetter c) then underscoreScan hex (CHR ''0'') cs
      else if c = CHR ''_'' then
        (if saw \<noteq> CHR ''0'' then False else underscoreScan hex (CHR ''_'') cs)
      else if saw = CHR ''_'' then False
      else underscoreScan hex (CHR ''!'') cs)"

definition dropSign :: "string \<Rightarrow> bool \<times> string" where
  "dropSign s =
     (case s of
        [] \<Rightarrow> (False, [])
      | c # cs \<Rightarrow>
          if c = CHR ''-'' then (True, cs)
          else if c = CHR ''+'' then (False, cs)
          else (False, s))"

definition underscoreOK :: "string \<Rightarrow> bool" where
  "underscoreOK s =
     (case snd (dropSign s) of
        c # d # rest \<Rightarrow>
          if c = CHR ''0'' \<and> d \<in> set ''bBoOxX''
          then underscoreScan (d \<in> set ''xX'') (CHR ''0'') rest
          else underscoreScan False (CHR ''^'') (c # d # rest)
      | body \<Rightarrow> underscoreScan False (CHR ''^'') body)"

text \<open>
  The exponent: nothing, or the letter, a sign, a digit, and digits and underscores to the
  end of the text. The library stops adding digits once the exponent has reached 10000.
\<close>

definition exponentValue :: "string \<Rightarrow> nat" where
  "exponentValue ds = foldl (\<lambda>e c. if e < 10000 then e * 10 + digitVal c else e) 0 ds"

definition readExponent :: "string \<Rightarrow> int option" where
  "readExponent s =
     (case s of
        [] \<Rightarrow> Some 0
      | c # r \<Rightarrow>
          if c = CHR ''e'' \<or> c = CHR ''E'' then
            (let (neg, ds) = dropSign r in
             (case ds of
                [] \<Rightarrow> None
              | d # _ \<Rightarrow>
                  if isDigit d \<and> list_all mantChar ds
                  then Some ((if neg then - 1 else 1) * int (exponentValue (filter isDigit ds)))
                  else None))
          else None)"

text \<open>
  \<open>readFloat body\<close> is the pair \<open>(n, ex)\<close> with which the text after the sign denotes
  \<open>n * 10 ^ ex\<close>, or \<open>None\<close> when the text is not a mantissa and an exponent.
\<close>

definition readFloat :: "string \<Rightarrow> (nat \<times> int) option" where
  "readFloat body =
     (let ip = takeWhile mantChar body;
          r1 = dropWhile mantChar body;
          (fp, r2) =
            (case r1 of
               [] \<Rightarrow> ([], [])
             | c # r \<Rightarrow>
                 if c = CHR ''.'' then (takeWhile mantChar r, dropWhile mantChar r)
                 else ([], r1))
      in if filter isDigit (ip @ fp) = [] then None
         else
           (case readExponent r2 of
              None \<Rightarrow> None
            | Some e \<Rightarrow>
                Some (decimalValue (filter isDigit (ip @ fp)),
                      e - int (length (filter isDigit fp)))))"

text \<open>
  Rounding the positive rational \<open>num / den\<close> to \<^verbatim>\<open>float64\<close>. \<open>floorLog2\<close> is the binary
  exponent \<open>e\<close> with \<open>2 ^ e \<le> num / den < 2 ^ (e + 1)\<close>. The mantissa has 53 bits, so the
  result is a multiple of \<open>2 ^ p\<close>, with \<open>p = e - 52\<close> and at least \<open>-1074\<close> (the
  subnormal numbers); the multiple is the nearest one, the even one at a tie. \<open>None\<close> is
  the overflow.
\<close>

fun bitLength :: "nat \<Rightarrow> nat" where
  "bitLength n = (if n = 0 then 0 else Suc (bitLength (n div 2)))"

declare bitLength.simps [simp del]

definition floorLog2 :: "nat \<Rightarrow> nat \<Rightarrow> int" where
  "floorLog2 num den =
     (let e0 = int (bitLength num) - int (bitLength den) in
      if (if 0 \<le> e0 then den * 2 ^ nat e0 \<le> num else den \<le> num * 2 ^ nat (- e0))
      then e0 else e0 - 1)"

definition roundHalfEven :: "nat \<Rightarrow> nat \<Rightarrow> nat" where
  "roundHalfEven a b =
     (let q = a div b; r = a mod b in
      if 2 * r < b then q
      else if b < 2 * r then q + 1
      else if even q then q else q + 1)"

definition float64 :: "nat \<Rightarrow> nat \<Rightarrow> real option" where
  "float64 num den =
     (if num = 0 then Some 0
      else
        let e = floorLog2 num den;
            p = max e (- 1022) - 52;
            m = (if 0 \<le> p then roundHalfEven num (den * 2 ^ nat p)
                 else roundHalfEven (num * 2 ^ nat (- p)) den)
        in if 1024 \<le> e \<or> (e = 1023 \<and> m = 2 ^ 53) then None
           else Some (if 0 \<le> p then real m * 2 ^ nat p else real m / 2 ^ nat (- p)))"

fun roundDecimal :: "(nat \<times> int) option \<Rightarrow> real option" where
  "roundDecimal None = None"
| "roundDecimal (Some (n, ex)) = float64 (n * 10 ^ nat ex) (10 ^ nat (- ex))"

fun applySign :: "bool \<Rightarrow> real option \<Rightarrow> real option" where
  "applySign neg None = None"
| "applySign neg (Some v) = Some (if neg then - v else v)"

definition ParseFloat :: "string \<Rightarrow> real option" where
  "ParseFloat s =
     (if underscoreOK s
      then applySign (fst (dropSign s)) (roundDecimal (readFloat (snd (dropSign s))))
      else None)"

text \<open>
  The ways the process can end. \<^verbatim>\<open>log.Fatalln\<close> prints and calls \<^verbatim>\<open>os.Exit(1)\<close>; an
  index out of range and a nil pointer dereference are run-time panics, which end the
  process with status 2;
  \<open>UsageExit\<close> is \<^verbatim>\<open>flag.Usage()\<close> followed by \<^verbatim>\<open>os.Exit(1)\<close>.
\<close>

datatype exit = UsageExit | LogFatal | IndexPanic | NilPanic

fun exitStatus :: "exit \<Rightarrow> nat" where
  "exitStatus UsageExit = 1"
| "exitStatus LogFatal = 1"
| "exitStatus IndexPanic = 2"
| "exitStatus NilPanic = 2"

definition convertPrice :: "string \<Rightarrow> exit + real" where
  "convertPrice p = (case ParseFloat p of None \<Rightarrow> Inl LogFatal | Some price \<Rightarrow> Inr price)"

section \<open>The remote quote source\<close>

text \<open>The decoded JSON payload, with the structs of the source.\<close>

record Fields =
  Name :: string
  Price :: string
  Symbol :: string
  TS :: string
  Type :: string
  UTCTime :: string
  Volume :: string

record Resource =
  Classname :: string
  Fields :: Fields

record Resources =
  Resource :: Resource

record Meta =
  MetaType :: string
  Start :: "64 word"
  Count :: "64 word"

record StockList =
  Meta :: Meta
  Resources :: "Resources list"

record Stock =
  List :: StockList

text \<open>
  What one HTTP request can bring back: \<^verbatim>\<open>client.Get\<close> returns an error (no connection,
  or the ten-second timeout before the response arrives); or there is a response whose
  body the JSON decoder fails on; or the body decodes. The decoder writes through a pointer to the \<^verbatim>\<open>*Stock\<close>, so the JSON
  \<^verbatim>\<open>null\<close> leaves a nil pointer: \<open>Decoded None\<close>. Fields absent from the JSON keep
  their zero values (the empty string, the empty list). The remote side is a parameter:
  a function from the requested URL to the outcome.
\<close>

datatype response = GetError | BadBody | Decoded "Stock option"

type_synonym remote = "string \<Rightarrow> response"

definition URL :: "string \<Rightarrow> string" where
  "URL symbol = ''http://finance.yahoo.com/webservice/v1/symbols/'' @ symbol @ ''/quote?format=json''"

text \<open>
  \<open>query\<close> either ends the process (\<open>Inl\<close>), or returns: an error value
  (\<open>Inr (Inl msg)\<close>) or the decoded data (\<open>Inr (Inr data)\<close>).
\<close>

definition query :: "remote \<Rightarrow> string \<Rightarrow> exit + (string + Stock option)" where
  "query net symbol =
     (case net (URL symbol) of
        GetError \<Rightarrow> Inr (Inl ''unable to retrive symbol data'')
      | BadBody \<Rightarrow> Inl LogFatal
      | Decoded data \<Rightarrow> Inr (Inr data))"

section \<open>One poll cycle\<close>

text \<open>
  \<open>runner\<close> starts one goroutine per key of the store and waits for all of them.
  \<open>worker\<close> is the body of the goroutine for key \<open>k\<close>. It touches the shared store only
  in its last step, one call of \<open>updateStock\<close> under the mutex, with arguments computed
  before; the first argument is evaluated before the second, so an empty resource list
  panics before the price is looked at.
\<close>

definition worker :: "remote \<Rightarrow> string \<Rightarrow> stockwatcher \<Rightarrow> exit + stockwatcher" where
  "worker net k t =
     (case query net k of
        Inl e \<Rightarrow> Inl e
      | Inr (Inl err) \<Rightarrow> Inr (updateStock k 0 t)
      | Inr (Inr None) \<Rightarrow> Inl NilPanic
      | Inr (Inr (Some stock)) \<Rightarrow>
          (case Resources (List stock) of
             [] \<Rightarrow> Inl IndexPanic
           | r # _ \<Rightarrow>
               (case convertPrice (FindString re (Price (Fields (Resource r)))) of
                  Inl e \<Rightarrow> Inl e
                | Inr price \<Rightarrow> Inr (updateStock (Symbol (Fields (Resource r))) price t))))"

text \<open>
  Since every goroutine changes the store in one atomic step, a cycle is the sequence of
  the goroutines' bodies in the order in which they reach that step; the process ends at
  the first of them that ends it. The order is not fixed by the program: it is the
  argument \<open>order\<close>, a list of the keys the \<^verbatim>\<open>range\<close> loop visited. \<open>range_order t ks\<close>
  says that \<open>ks\<close> lists every key of the store once, which is what a \<^verbatim>\<open>range\<close> over the
  map yields, in an order Go leaves open. (That the \<^verbatim>\<open>range\<close> loop of \<open>runner\<close> reads
  the map without the mutex while goroutines already write is not modelled.)
\<close>

fun runner :: "remote \<Rightarrow> string list \<Rightarrow> stockwatcher \<Rightarrow> exit + stockwatcher" where
  "runner net [] t = Inr t"
| "runner net (k # order) t =
     (case worker net k t of Inl e \<Rightarrow> Inl e | Inr t' \<Rightarrow> runner net order t')"

definition range_order :: "stockwatcher \<Rightarrow> string list \<Rightarrow> bool" where
  "range_order t ks = (distinct ks \<and> set ks = fset (fmdom (quotes t)))"

section \<open>Rendering\<close>

text \<open>
  \<open>formatData\<close> collects the keys in \<^verbatim>\<open>range\<close> order, sorts them with
  \<^verbatim>\<open>sort.Strings\<close> (ascending byte-wise order) and prints one line per key at rows
  1, 2, ... A printed line is modelled by the arguments of its \<^verbatim>\<open>Sprintf\<close> and its
  colour: the symbol, the current price, the sign and the figure (absent on the neutral
  line, which prints the placeholders \<^verbatim>\<open>%\<close> and \<^verbatim>\<open>-\<close>), the arrow and the foreground.
  The quotient is the real quotient: the rounding of the \<^verbatim>\<open>float64\<close> division is not
  modelled.
\<close>

definition UP :: string where
  "UP = [CHR 0xE2, CHR 0x86, CHR 0x91]"

definition DOWN :: string where
  "DOWN = [CHR 0xE2, CHR 0x86, CHR 0x93]"

datatype colour = ColorWhite | ColorGreen | ColorRed

record line =
  ln_row :: nat
  ln_sym :: string
  ln_price :: real
  ln_sign :: string
  ln_figure :: "real option"
  ln_arrow :: string
  ln_fg :: colour

definition formatLine :: "stockwatcher \<Rightarrow> string \<Rightarrow> nat \<Rightarrow> line" where
  "formatLine t k pos =
     (if previous t k = 0 \<or> previous t k = current t k then
        \<lparr>ln_row = pos, ln_sym = k, ln_price = current t k, ln_sign = [], ln_figure = None,
         ln_arrow = ''-'', ln_fg = ColorWhite\<rparr>
      else if current t k > previous t k then
        \<lparr>ln_row = pos, ln_sym = k, ln_price = current t k, ln_sign = ''+'',
         ln_figure = Some (current t k / previous t k), ln_arrow = UP, ln_fg = ColorGreen\<rparr>
      else
        \<lparr>ln_row = pos, ln_sym = k, ln_price = current t k, ln_sign = ''-'',
         ln_figure = Some (current t k / previous t k), ln_arrow = DOWN, ln_fg = ColorRed\<rparr>)"

fun formatLines :: "stockwatcher \<Rightarrow> nat \<Rightarrow> string list \<Rightarrow> line list" where
  "formatLines t pos [] = []"
| "formatLines t pos (k # keys) = formatLine t k pos # formatLines t (pos + 1) keys"

definition formatData :: "stockwatcher \<Rightarrow> string list \<Rightarrow> line list" where
  "formatData t ks = formatLines t 1 (sort ks)"

text \<open>
  The program has no separate snapshot operation: \<open>formatData\<close> reads the store directly.
  \<open>snapshot\<close> names the sequence of (symbol, entry) pairs that it reads, in the order in
  which it reads them.
\<close>

definition snapshot :: "stockwatcher \<Rightarrow> string list \<Rightarrow> (string \<times> price_map) list" where
  "snapshot t ks = map (\<lambda>k. (k, quotes_at (quotes t) k)) (sort ks)"

section \<open>Startup\<close>

text \<open>
  The command line after a successful \<^verbatim>\<open>flag.Parse()\<close>: for each of the two flags the
  program defines, the value given to it, or \<open>None\<close> when the flag was not set.
  \<^verbatim>\<open>flag.NFlag()\<close> counts the flags that were set. \<open>int\<close> is taken to be 64 bits wide.
\<close>

record flags =
  sArg :: "string option"
  iArg :: "64 word option"

definition symbolFlag :: "flags \<Rightarrow> string" where
  "symbolFlag fl = (case sArg fl of None \<Rightarrow> [] | Some v \<Rightarrow> v)"

definition intervalFlag :: "flags \<Rightarrow> 64 word" where
  "intervalFlag fl = (case iArg fl of None \<Rightarrow> 1 | Some v \<Rightarrow> v)"

definition NFlag :: "flags \<Rightarrow> nat" where
  "NFlag fl = (if sArg fl = None then 0 else 1) + (if iArg fl = None then 0 else 1)"

definition Second :: "64 word" where
  "Second = 1000000000"

fun Split :: "string \<Rightarrow> char \<Rightarrow> string list" where
  "Split [] sep = [[]]"
| "Split (c # cs) sep =
     (if c = sep then [] # Split cs sep
      else (case Split cs sep of [] \<Rightarrow> [[c]] | w # ws \<Rightarrow> (c # w) # ws))"

text \<open>
  \<open>main\<close> up to the polling loop: the result is the way the process ends before the loop,
  or the store with which the loop starts. \<open>tbInit\<close> tells whether \<^verbatim>\<open>termbox.Init()\<close>
  succeeds.
\<close>

definition main_init :: "flags \<Rightarrow> bool \<Rightarrow> exit + stockwatcher" where
  "main_init fl tbInit =
     (if NFlag fl \<noteq> 2 \<or> symbolFlag fl = [] then Inl UsageExit
      else
        let t = NewStockWatcher (intervalFlag fl * Second);
            t' = (if CHR '','' \<in> set (symbolFlag fl)
                  then foldl (\<lambda>t a. add a t) t (Split (symbolFlag fl) (CHR '',''))
                  else add (symbolFlag fl) t)
        in if tbInit then Inr t' else Inl LogFatal)"

section \<open>What a worker does to the store\<close>

text \<open>
  The arguments of a worker's \<open>updateStock\<close> do not depend on the store. \<open>action\<close> is
  the outcome of the body of \<open>worker\<close> before that call: the exit, or the symbol and the
  price it will store. \<open>target\<close> is the symbol a worker writes (its own key when it
  ends the process), and \<open>perform\<close> is its effect on the store.
\<close>

definition action :: "remote \<Rightarrow> string \<Rightarrow> exit + string \<times> real" where
  "action net k =
     (case query net k of
        Inl e \<Rightarrow> Inl e
      | Inr (Inl err) \<Rightarrow> Inr (k, 0)
      | Inr (Inr None) \<Rightarrow> Inl NilPanic
      | Inr (Inr (Some stock)) \<Rightarrow>
          (case Resources (List stock) of
             [] \<Rightarrow> Inl IndexPanic
           | r # _ \<Rightarrow>
               (case convertPrice (FindString re (Price (Fields (Resource r)))) of
                  Inl e \<Rightarrow> Inl e
                | Inr price \<Rightarrow> Inr (Symbol (Fields (Resource r)), price))))"

definition target :: "remote \<Rightarrow> string \<Rightarrow> string" where
  "target net k = (case action net k of Inl e \<Rightarrow> k | Inr (s, p) \<Rightarrow> s)"

definition perform :: "remote \<Rightarrow> string \<Rightarrow> stockwatcher \<Rightarrow> stockwatcher" where
  "perform net k t = (case action net k of Inl e \<Rightarrow> t | Inr (s, p) \<Rightarrow> updateStock s p t)"

section \<open>Example inputs\<close>

text \<open>A payload with one resource, which echoes \<open>symbol\<close> and carries the price text \<open>p\<close>.\<close>

definition quote :: "string \<Rightarrow> string \<Rightarrow> Stock" where
  "quote symbol p =
     \<lparr>List = \<lparr>Meta = \<lparr>MetaType = ''resource-list'', Start = 0, Count = 1\<rparr>,
              Resources =
                [\<lparr>Resource = \<lparr>Classname = ''Quote'',
                    Fields = \<lparr>Name = [], Price = p, Symbol = symbol, TS = [],
                      Type = ''equity'', UTCTime = [], Volume = []\<rparr>\<rparr>\<rparr>]\<rparr>\<rparr>"

text \<open>
  The stores after \<^verbatim>\<open>-s AAPL,aapl -i 1\<close>, after \<^verbatim>\<open>-s aapl -i 1\<close> and after
  \<^verbatim>\<open>-s AAPL,GOOG -i 1\<close>.
\<close>

definition watch_cases :: stockwatcher where
  "watch_cases = add ''aapl'' (add ''AAPL'' (NewStockWatcher Second))"

definition watch_lower :: stockwatcher where
  "watch_lower = add ''aapl'' (NewStockWatcher Second)"

definition watch_two :: stockwatcher where
  "watch_two = add ''GOOG'' (add ''AAPL'' (NewStockWatcher Second))"

text \<open>
  A remote side that answers in upper case: both \<open>AAPL\<close> and \<open>aapl\<close> are echoed as
  \<open>AAPL\<close>, and the price moved between the two requests.
\<close>

definition remote_upper :: remote where
  "remote_upper u =
     (if u = URL ''AAPL'' then Decoded (Some (quote ''AAPL'' ''10.00''))
      else if u = URL ''aapl'' then Decoded (Some (quote ''AAPL'' ''20.00''))
      else GetError)"

text \<open>A remote side with no price to give: every answer has the price text \<open>N/A\<close>.\<close>

definition remote_no_price :: remote where
  "remote_no_price u =
     (if u = URL ''GOOG'' then Decoded (Some (quote ''GOOG'' ''N/A''))
      else Decoded (Some (quote ''AAPL'' ''N/A'')))"

text \<open>A remote side that answers each of two symbols with its own quote.\<close>

definition remote_ok :: remote where
  "remote_ok u =
     (if u = URL ''AAPL'' then Decoded (Some (quote ''AAPL'' ''123.5000 USD''))
      else if u = URL ''GOOG'' then Decoded (Some (quote ''GOOG'' ''1500.25''))
      else GetError)"

text \<open>A remote side that quotes a price below ten.\<close>

definition remote_penny :: remote where
  "remote_penny u = Decoded (Some (quote ''AAPL'' ''1.23''))"

text \<open>A remote side that quotes a price together with a second figure.\<close>

definition remote_range :: remote where
  "remote_range u = Decoded (Some (quote ''AAPL'' ''12.50 (13.75)''))"

text \<open>A remote side that has no price for \<open>AAPL\<close> and cannot be reached for anything else.\<close>

definition remote_mixed :: remote where
  "remote_mixed u =
     (if u = URL ''AAPL'' then Decoded (Some (quote ''AAPL'' ''N/A'')) else GetError)"

text \<open>A remote side whose answers are not JSON.\<close>

definition remote_garbled :: remote where
  "remote_garbled u = BadBody"

text \<open>A remote side that cannot be reached.\<close>

definition remote_down :: remote where
  "remote_down u = GetError"

section \<open>Basic facts about the store\<close>

lemma current_updateStock:
  "current (updateStock s p t) s' = (if s' = s then p else current t s')"
  by (simp add: current_def updateStock_def quotes_at_def price_at_def)

lemma previous_updateStock:
  "previous (updateStock s p t) s' = (if s' = s then current t s else previous t s')"
  by (simp add: previous_def current_def updateStock_def quotes_at_def price_at_def)

lemma fmdom_updateStock:
  "fmdom (quotes (updateStock s p t)) = finsert s (fmdom (quotes t))"
  by (simp add: updateStock_def)

lemma interval_updateStock: "interval (updateStock s p t) = interval t"
  by (simp add: updateStock_def)

lemma fmlookup_updateStock_other:
  "s' \<noteq> s \<Longrightarrow> fmlookup (quotes (updateStock s p t)) s' = fmlookup (quotes t) s'"
  by (simp add: updateStock_def)

lemma quotes_at_updateStock:
  "quotes_at (quotes (updateStock s p t)) s
     = fmap_of_list [(''previous'', price_at (quotes_at (quotes t) s) ''current''), (''current'', p)]"
  by (simp add: updateStock_def quotes_at_def)

lemma current_add_fresh: "current (add s (NewStockWatcher i)) s = 0"
  by (simp add: current_def add_def NewStockWatcher_def quotes_at_def price_at_def)

section \<open>A cycle as a fold of updates\<close>

lemma worker_action:
  "worker net k t = (case action net k of Inl e \<Rightarrow> Inl e | Inr (s, p) \<Rightarrow> Inr (updateStock s p t))"
  by (simp add: worker_def action_def split: sum.splits option.splits list.splits)

lemma updateStock_swap:
  assumes "s1 \<noteq> s2"
  shows "updateStock s1 p1 (updateStock s2 p2 t) = updateStock s2 p2 (updateStock s1 p1 t)"
  using assms by (simp add: updateStock_def quotes_at_def fmupd_reorder_neq)

lemma runner_completes_iff:
  "runner net order t = Inr t' \<longleftrightarrow>
     (\<forall>k\<in>set order. \<exists>sp. action net k = Inr sp) \<and> t' = fold (perform net) order t"
proof (induction order arbitrary: t)
  case Nil
  show ?case by auto
next
  case (Cons k order)
  show ?case
  proof (cases "action net k")
    case (Inl e)
    then show ?thesis by (simp add: worker_action)
  next
    case (Inr sp)
    obtain s p where sp: "sp = (s, p)" by (cases sp)
    from Inr sp have "worker net k t = Inr (updateStock s p t)"
      by (simp add: worker_action)
    moreover from Inr sp have "perform net k t = updateStock s p t"
      by (simp add: perform_def)
    ultimately show ?thesis using Inr Cons.IH [of "updateStock s p t"] by simp
  qed
qed

lemma perform_commute:
  assumes "target net k \<noteq> target net k'"
  shows "perform net k (perform net k' t) = perform net k' (perform net k t)"
  using assms
  by (auto simp: perform_def target_def updateStock_swap split: sum.splits prod.splits)

lemma runner_order_irrelevant:
  assumes compl: "runner net order t = Inr t'"
    and perm: "mset order' = mset order"
    and inj: "inj_on (target net) (set order)"
  shows "runner net order' t = Inr t'"
proof -
  from compl have acts: "\<forall>k\<in>set order. \<exists>sp. action net k = Inr sp"
    and t': "t' = fold (perform net) order t"
    by (simp_all add: runner_completes_iff)
  have comm: "perform net x \<circ> perform net y = perform net y \<circ> perform net x"
    if "x \<in> set order" "y \<in> set order" for x y
  proof (cases "x = y")
    case True
    then show ?thesis by simp
  next
    case False
    with inj that have "target net x \<noteq> target net y"
      by (auto dest: inj_onD)
    then show ?thesis
      by (auto simp: fun_eq_iff perform_commute)
  qed
  have "fold (perform net) order = fold (perform net) order'"
    by (rule fold_multiset_equiv) (use comm perm in auto)
  moreover from perm have "set order' = set order"
    by (rule mset_eq_setD)
  ultimately show ?thesis using acts t'
    by (simp add: runner_completes_iff)
qed

section \<open>Claims about \<open>updateStock\<close>\<close>

text \<open>
  C4. For every store and every symbol \<open>s\<close> (registered or not), immediately after
  \<open>updateStock s p\<close> the entry of \<open>s\<close> has \<open>current = p\<close> and \<open>previous\<close> equal to the
  value \<open>current\<close> had immediately before the call. Since the store is arbitrary, this
  covers the state reached by any sequence of earlier updates. In particular, on a freshly
  registered symbol, the updates \<open>5.0\<close> then \<open>7.0\<close> leave \<open>previous = 5.0\<close> and
  \<open>current = 7.0\<close>, and these two are the only fields of the entry.
\<close>

theorem updateStock_shifts_current:
  "current (updateStock s p t) s = p
   \<and> previous (updateStock s p t) s = current t s
   \<and> registered (updateStock s p t) s
   \<and> quotes_at (quotes (updateStock s 7 (updateStock s 5 (add s (NewStockWatcher i))))) s
       = fmap_of_list [(''previous'', 5), (''current'', 7)]"
proof -
  have cur: "current (updateStock s p t) s = p"
    by (simp add: current_updateStock)
  have prev: "previous (updateStock s p t) s = current t s"
    by (simp add: previous_updateStock)
  have reg: "registered (updateStock s p t) s"
    by (simp add: registered_def fmdom_updateStock)
  have "current (updateStock s 5 (add s (NewStockWatcher i))) s = 5"
    by (simp add: current_updateStock)
  then have two: "quotes_at (quotes (updateStock s 7 (updateStock s 5 (add s (NewStockWatcher i))))) s
       = fmap_of_list [(''previous'', 5), (''current'', 7)]"
    by (simp add: quotes_at_updateStock current_def)
  from cur prev reg two show ?thesis by blast
qed

lemma current_unregistered: "\<not> registered t s \<Longrightarrow> current t s = 0"
  by (simp add: current_def registered_def quotes_at_def price_at_def fmdom_notD)

text \<open>
  C2, as stated, fails: the program has no error for an unregistered symbol. On the empty
  store, \<open>updateStock\<close> for \<open>AAPL\<close> changes the store and registers the symbol.
\<close>

theorem updateStock_unregistered_counterexample:
  "\<not> registered (NewStockWatcher Second) ''AAPL''
   \<and> updateStock ''AAPL'' 5 (NewStockWatcher Second) \<noteq> NewStockWatcher Second
   \<and> registered (updateStock ''AAPL'' 5 (NewStockWatcher Second)) ''AAPL''
   \<and> current (updateStock ''AAPL'' 5 (NewStockWatcher Second)) ''AAPL'' = 5"
proof -
  have a: "\<not> registered (NewStockWatcher Second) ''AAPL''"
    by (simp add: registered_def NewStockWatcher_def)
  have b: "registered (updateStock ''AAPL'' 5 (NewStockWatcher Second)) ''AAPL''"
    by (simp add: registered_def fmdom_updateStock)
  from a b have c: "updateStock ''AAPL'' 5 (NewStockWatcher Second) \<noteq> NewStockWatcher Second"
    by metis
  have d: "current (updateStock ''AAPL'' 5 (NewStockWatcher Second)) ''AAPL'' = 5"
    by (simp add: current_updateStock)
  from a b c d show ?thesis by blast
qed

text \<open>
  C2, amended. \<open>updateStock\<close> has no failure: its result is always a store. For a
  symbol \<open>s\<close> that is not registered, it registers \<open>s\<close> with \<open>previous = 0\<close> and
  \<open>current = p\<close>, and leaves every other entry and the interval as they were.
\<close>

theorem updateStock_unregistered_registers:
  assumes "\<not> registered t s"
  shows "registered (updateStock s p t) s
    \<and> previous (updateStock s p t) s = 0
    \<and> current (updateStock s p t) s = p
    \<and> fmdom (quotes (updateStock s p t)) = finsert s (fmdom (quotes t))
    \<and> (\<forall>s'. s' \<noteq> s \<longrightarrow> fmlookup (quotes (updateStock s p t)) s' = fmlookup (quotes t) s')
    \<and> interval (updateStock s p t) = interval t"
  using assms
  by (simp add: registered_def fmdom_updateStock previous_updateStock current_updateStock
      current_unregistered fmlookup_updateStock_other interval_updateStock)

theorem updateStock_unregistered_registers_witness:
  "\<not> registered (NewStockWatcher Second) ''AAPL''
   \<and> registered (updateStock ''AAPL'' 5 (NewStockWatcher Second)) ''AAPL''
   \<and> previous (updateStock ''AAPL'' 5 (NewStockWatcher Second)) ''AAPL'' = 0
   \<and> current (updateStock ''AAPL'' 5 (NewStockWatcher Second)) ''AAPL'' = 5"
proof -
  have h: "\<not> registered (NewStockWatcher Second) ''AAPL''"
    by (simp add: registered_def NewStockWatcher_def)
  from updateStock_unregistered_registers [OF h, of 5] h show ?thesis
    by simp
qed

section \<open>Evaluating the examples\<close>

lemma URL_inject: "URL a = URL b \<longleftrightarrow> a = b"
  by (simp add: URL_def)

lemmas price_eval = convertPrice_def FindString_def re_def isDigit_def anyChar_def isDot_def
  ParseFloat_def readFloat_def readExponent_def dropSign_def underscoreOK_def mantChar_def
  decimalValue_def digitVal_def float64_def floorLog2_def roundHalfEven_def bitLength.simps
  exponentValue_def

lemma action_remote_upper:
  "action remote_upper ''AAPL'' = Inr (''AAPL'', 10)"
  "action remote_upper ''aapl'' = Inr (''AAPL'', 20)"
  by (simp_all add: action_def query_def remote_upper_def URL_inject quote_def price_eval)

lemma action_remote_ok:
  "action remote_ok ''AAPL'' = Inr (''AAPL'', 123.5)"
  "action remote_ok ''GOOG'' = Inr (''GOOG'', 1500.25)"
  by (simp_all add: action_def query_def remote_ok_def URL_inject quote_def price_eval)

lemma action_remote_no_price:
  "action remote_no_price ''AAPL'' = Inl LogFatal"
  "action remote_no_price ''GOOG'' = Inl LogFatal"
  by (simp_all add: action_def query_def remote_no_price_def URL_inject quote_def price_eval)


lemma fmdom_watch:
  "fmdom (quotes watch_cases) = {|''AAPL'', ''aapl''|}"
  "fmdom (quotes watch_lower) = {|''aapl''|}"
  "fmdom (quotes watch_two) = {|''AAPL'', ''GOOG''|}"
  by (auto simp: watch_cases_def watch_lower_def watch_two_def add_def NewStockWatcher_def)

section \<open>Order of completion\<close>

lemma target_echo_inj:
  assumes "\<forall>k\<in>set order. target net k = k"
  shows "inj_on (target net) (set order)"
  using assms by (auto intro!: inj_onI)

text \<open>
  C9, as stated, fails in its last part. With \<open>AAPL\<close> and \<open>aapl\<close> both configured and a
  remote side that echoes both as \<open>AAPL\<close>, the two workers write the same entry, and the
  store after the cycle depends on which of them completes last.
\<close>

theorem runner_order_counterexample:
  "range_order watch_cases [''AAPL'', ''aapl'']
   \<and> range_order watch_cases [''aapl'', ''AAPL'']
   \<and> runner remote_upper [''AAPL'', ''aapl''] watch_cases
       = Inr (updateStock ''AAPL'' 20 (updateStock ''AAPL'' 10 watch_cases))
   \<and> runner remote_upper [''aapl'', ''AAPL''] watch_cases
       = Inr (updateStock ''AAPL'' 10 (updateStock ''AAPL'' 20 watch_cases))
   \<and> updateStock ''AAPL'' 20 (updateStock ''AAPL'' 10 watch_cases)
       \<noteq> updateStock ''AAPL'' 10 (updateStock ''AAPL'' 20 watch_cases)"
proof -
  have a: "range_order watch_cases [''AAPL'', ''aapl'']"
    by (simp add: range_order_def fmdom_watch)
  have b: "range_order watch_cases [''aapl'', ''AAPL'']"
    by (auto simp: range_order_def fmdom_watch)
  have c: "runner remote_upper [''AAPL'', ''aapl''] watch_cases
       = Inr (updateStock ''AAPL'' 20 (updateStock ''AAPL'' 10 watch_cases))"
    by (simp add: worker_action action_remote_upper)
  have d: "runner remote_upper [''aapl'', ''AAPL''] watch_cases
       = Inr (updateStock ''AAPL'' 10 (updateStock ''AAPL'' 20 watch_cases))"
    by (simp add: worker_action action_remote_upper)
  have "current (updateStock ''AAPL'' 20 (updateStock ''AAPL'' 10 watch_cases)) ''AAPL''
       \<noteq> current (updateStock ''AAPL'' 10 (updateStock ''AAPL'' 20 watch_cases)) ''AAPL''"
    by (simp add: current_updateStock)
  then have e: "updateStock ''AAPL'' 20 (updateStock ''AAPL'' 10 watch_cases)
       \<noteq> updateStock ''AAPL'' 10 (updateStock ''AAPL'' 20 watch_cases)"
    by metis
  from a b c d e show ?thesis by blast
qed

text \<open>
  C9, amended. For distinct symbols \<open>s1 \<noteq> s2\<close>, \<open>updateStock s1 p1\<close> and
  \<open>updateStock s2 p2\<close> give the same store in either order, and an update leaves every
  entry other than its own symbol's unchanged. A cycle that completes under one order of
  completion gives the same store under every other order, provided its workers write
  pairwise distinct symbols; this is so in particular when every worker writes the symbol
  it queried.
\<close>

theorem updateStock_commutes:
  "(s1 \<noteq> s2 \<longrightarrow>
      updateStock s1 p1 (updateStock s2 p2 t) = updateStock s2 p2 (updateStock s1 p1 t))
   \<and> (s' \<noteq> s \<longrightarrow> fmlookup (quotes (updateStock s p t)) s' = fmlookup (quotes t) s')
   \<and> (runner net order t = Inr t' \<and> mset order' = mset order
        \<and> inj_on (target net) (set order) \<longrightarrow> runner net order' t = Inr t')
   \<and> (runner net order t = Inr t' \<and> mset order' = mset order
        \<and> (\<forall>k\<in>set order. target net k = k) \<longrightarrow> runner net order' t = Inr t')"
proof -
  have a: "s1 \<noteq> s2 \<longrightarrow>
      updateStock s1 p1 (updateStock s2 p2 t) = updateStock s2 p2 (updateStock s1 p1 t)"
    by (simp add: updateStock_swap)
  have b: "s' \<noteq> s \<longrightarrow> fmlookup (quotes (updateStock s p t)) s' = fmlookup (quotes t) s'"
    by (simp add: fmlookup_updateStock_other)
  have c: "runner net order t = Inr t' \<and> mset order' = mset order
        \<and> inj_on (target net) (set order) \<longrightarrow> runner net order' t = Inr t'"
    using runner_order_irrelevant by blast
  have d: "runner net order t = Inr t' \<and> mset order' = mset order
        \<and> (\<forall>k\<in>set order. target net k = k) \<longrightarrow> runner net order' t = Inr t'"
    using runner_order_irrelevant target_echo_inj by blast
  from a b c d show ?thesis by blast
qed

theorem updateStock_commutes_witness:
  "runner remote_ok [''AAPL'', ''GOOG''] watch_two
     = Inr (updateStock ''GOOG'' 1500.25 (updateStock ''AAPL'' 123.5 watch_two))
   \<and> runner remote_ok [''GOOG'', ''AAPL''] watch_two
     = Inr (updateStock ''GOOG'' 1500.25 (updateStock ''AAPL'' 123.5 watch_two))
   \<and> updateStock ''AAPL'' 123.5 (updateStock ''GOOG'' 1500.25 watch_two)
     = updateStock ''GOOG'' 1500.25 (updateStock ''AAPL'' 123.5 watch_two)
   \<and> fmlookup (quotes (updateStock ''AAPL'' 123.5 watch_two)) ''GOOG''
     = fmlookup (quotes watch_two) ''GOOG''"
proof -
  have run: "runner remote_ok [''AAPL'', ''GOOG''] watch_two
     = Inr (updateStock ''GOOG'' 1500.25 (updateStock ''AAPL'' 123.5 watch_two))"
    by (simp add: worker_action action_remote_ok)
  have perm: "mset [''GOOG'', ''AAPL''] = mset [''AAPL'', ''GOOG'']"
    by simp
  have echo: "\<forall>k\<in>set [''AAPL'', ''GOOG'']. target remote_ok k = k"
    by (simp add: target_def action_remote_ok)
  have ne: "''AAPL'' \<noteq> ''GOOG''" "''GOOG'' \<noteq> ''AAPL''"
    by simp_all
  note inst = updateStock_commutes [of "''AAPL''" "''GOOG''" "123.5" "1500.25" watch_two
      "''GOOG''" "''AAPL''" "123.5" remote_ok "[''AAPL'', ''GOOG'']"
      "updateStock ''GOOG'' 1500.25 (updateStock ''AAPL'' 123.5 watch_two)"
      "[''GOOG'', ''AAPL'']"]
  from inst run perm echo ne show ?thesis
    by blast
qed

section \<open>The key of a successful update\<close>

text \<open>
  C10, as stated, fails where it says that a new entry is created whenever the echoed
  symbol differs from the queried one. With \<open>AAPL\<close> and \<open>aapl\<close> both configured, the
  worker for \<open>aapl\<close> receives the echo \<open>AAPL\<close>, which is already a key: it overwrites
  that entry, and the store has the same keys as before.
\<close>

theorem worker_echo_registered_counterexample:
  "worker remote_upper ''aapl'' watch_cases = Inr (updateStock ''AAPL'' 20 watch_cases)
   \<and> ''AAPL'' \<noteq> ''aapl''
   \<and> registered watch_cases ''AAPL''
   \<and> fmdom (quotes (updateStock ''AAPL'' 20 watch_cases)) = fmdom (quotes watch_cases)
   \<and> fcard (fmdom (quotes (updateStock ''AAPL'' 20 watch_cases))) = 2"
proof -
  have a: "worker remote_upper ''aapl'' watch_cases = Inr (updateStock ''AAPL'' 20 watch_cases)"
    by (simp add: worker_action action_remote_upper)
  have b: "''AAPL'' \<noteq> ''aapl''"
    by simp
  have c: "registered watch_cases ''AAPL''"
    by (simp add: registered_def fmdom_watch)
  have d: "fmdom (quotes (updateStock ''AAPL'' 20 watch_cases)) = fmdom (quotes watch_cases)"
    by (simp add: fmdom_updateStock fmdom_watch)
  have e: "fcard (fmdom (quotes (updateStock ''AAPL'' 20 watch_cases))) = 2"
    by (simp add: fmdom_updateStock fmdom_watch fcard_finsert_if)
  from a b c d e show ?thesis by blast
qed

text \<open>
  C10, amended. When a worker's fetch succeeds (the payload decodes, has a first resource,
  and its price text converts), the update is keyed by the symbol echoed in the payload,
  not by the queried symbol \<open>k\<close>. If the echoed symbol differs from \<open>k\<close>, the entry of \<open>k\<close>
  is left unchanged. If the echoed symbol is not yet a key of the store, a new entry
  \<open>{previous: 0, current: p}\<close> is created under it and the store grows by one key; if it
  is already a key, that entry is overwritten and the set of keys stays the same.
\<close>

theorem worker_keyed_by_echo:
  assumes "net (URL k) = Decoded (Some stock)"
    and "Resources (List stock) = r # rs"
    and "convertPrice (FindString re (Price (Fields (Resource r)))) = Inr p"
  shows "worker net k t = Inr (updateStock (Symbol (Fields (Resource r))) p t)
    \<and> (Symbol (Fields (Resource r)) \<noteq> k \<longrightarrow>
         fmlookup (quotes (updateStock (Symbol (Fields (Resource r))) p t)) k
           = fmlookup (quotes t) k)
    \<and> (\<not> registered t (Symbol (Fields (Resource r))) \<longrightarrow>
         fmdom (quotes (updateStock (Symbol (Fields (Resource r))) p t))
           = finsert (Symbol (Fields (Resource r))) (fmdom (quotes t))
         \<and> fcard (fmdom (quotes (updateStock (Symbol (Fields (Resource r))) p t)))
           = Suc (fcard (fmdom (quotes t)))
         \<and> previous (updateStock (Symbol (Fields (Resource r))) p t) (Symbol (Fields (Resource r))) = 0
         \<and> current (updateStock (Symbol (Fields (Resource r))) p t) (Symbol (Fields (Resource r))) = p)
    \<and> (registered t (Symbol (Fields (Resource r))) \<longrightarrow>
         fmdom (quotes (updateStock (Symbol (Fields (Resource r))) p t)) = fmdom (quotes t))"
proof -
  let ?e = "Symbol (Fields (Resource r))"
  from assms have a: "worker net k t = Inr (updateStock ?e p t)"
    by (simp add: worker_def query_def)
  have b: "?e \<noteq> k \<longrightarrow> fmlookup (quotes (updateStock ?e p t)) k = fmlookup (quotes t) k"
    by (simp add: fmlookup_updateStock_other)
  have c: "\<not> registered t ?e \<longrightarrow>
         fmdom (quotes (updateStock ?e p t)) = finsert ?e (fmdom (quotes t))
         \<and> fcard (fmdom (quotes (updateStock ?e p t))) = Suc (fcard (fmdom (quotes t)))
         \<and> previous (updateStock ?e p t) ?e = 0
         \<and> current (updateStock ?e p t) ?e = p"
    by (simp add: fmdom_updateStock registered_def fcard_finsert_disjoint
        previous_updateStock current_updateStock current_unregistered)
  have d: "registered t ?e \<longrightarrow> fmdom (quotes (updateStock ?e p t)) = fmdom (quotes t)"
    by (auto simp: fmdom_updateStock registered_def)
  from a b c d show ?thesis by blast
qed

theorem worker_keyed_by_echo_witness:
  "worker remote_upper ''aapl'' watch_lower = Inr (updateStock ''AAPL'' 20 watch_lower)
   \<and> \<not> registered watch_lower ''AAPL''
   \<and> fmlookup (quotes (updateStock ''AAPL'' 20 watch_lower)) ''aapl''
       = fmlookup (quotes watch_lower) ''aapl''
   \<and> fmdom (quotes (updateStock ''AAPL'' 20 watch_lower))
       = finsert ''AAPL'' (fmdom (quotes watch_lower))
   \<and> fcard (fmdom (quotes (updateStock ''AAPL'' 20 watch_lower)))
       = Suc (fcard (fmdom (quotes watch_lower)))"
proof -
  have net: "remote_upper (URL ''aapl'') = Decoded (Some (quote ''AAPL'' ''20.00''))"
    by (simp add: remote_upper_def URL_inject)
  have res: "Resources (List (quote ''AAPL'' ''20.00''))
      = \<lparr>Resource = \<lparr>Classname = ''Quote'',
           Fields = \<lparr>Name = [], Price = ''20.00'', Symbol = ''AAPL'', TS = [],
             Type = ''equity'', UTCTime = [], Volume = []\<rparr>\<rparr>\<rparr> # []"
    by (simp add: quote_def)
  have conv: "convertPrice (FindString re (Price (Fields (Resource
       \<lparr>Resource = \<lparr>Classname = ''Quote'',
           Fields = \<lparr>Name = [], Price = ''20.00'', Symbol = ''AAPL'', TS = [],
             Type = ''equity'', UTCTime = [], Volume = []\<rparr>\<rparr>\<rparr>)))) = Inr 20"
    by (simp add: price_eval)
  have unreg: "\<not> registered watch_lower ''AAPL''"
    by (simp add: registered_def fmdom_watch)
  have ne: "''AAPL'' \<noteq> ''aapl''"
    by simp
  have echo: "Symbol (Fields (Resource
       \<lparr>Resource = \<lparr>Classname = ''Quote'',
           Fields = \<lparr>Name = [], Price = ''20.00'', Symbol = ''AAPL'', TS = [],
             Type = ''equity'', UTCTime = [], Volume = []\<rparr>\<rparr>\<rparr>)) = ''AAPL''"
    by simp
  note inst = worker_keyed_by_echo
      [where net = remote_upper and k = "''aapl''" and t = watch_lower, OF net res conv,
       unfolded echo]
  from inst unreg ne show ?thesis by blast
qed

section \<open>Failed fetches\<close>

lemma ParseFloat_empty: "ParseFloat [] = None"
  by (simp add: ParseFloat_def underscoreOK_def dropSign_def readFloat_def)

lemma FindString_no_match: "match_prefix pat s = None \<Longrightarrow> FindString pat s = []"
  by (simp add: FindString_def)

lemma worker_fatal_price:
  assumes "net (URL k) = Decoded (Some stock)"
    and "Resources (List stock) = r # rs"
    and "ParseFloat (FindString re (Price (Fields (Resource r)))) = None"
  shows "worker net k t = Inl LogFatal"
  using assms by (simp add: worker_def query_def convertPrice_def)

text \<open>
  C1, as stated, fails. For the price text \<open>N/A\<close> the pattern finds no match,
  \<open>FindString\<close> returns the empty string, \<open>ParseFloat\<close> rejects it and \<open>convertPrice\<close>
  ends the process through \<^verbatim>\<open>log.Fatalln\<close>, with exit status 1: the worker does not
  return a failure.
\<close>

theorem worker_no_price_counterexample:
  "FindString re ''N/A'' = []
   \<and> convertPrice (FindString re ''N/A'') = Inl LogFatal
   \<and> worker remote_no_price ''AAPL'' watch_two = Inl LogFatal
   \<and> exitStatus LogFatal = 1"
proof -
  have a: "FindString re ''N/A'' = []"
    by (simp add: price_eval)
  have b: "convertPrice (FindString re ''N/A'') = Inl LogFatal"
    by (simp add: price_eval)
  have c: "worker remote_no_price ''AAPL'' watch_two = Inl LogFatal"
    by (simp add: worker_action action_remote_no_price)
  from a b c show ?thesis by simp
qed

text \<open>
  C1, amended. A network failure or timeout (an error of \<^verbatim>\<open>client.Get\<close>) makes \<open>query\<close>
  return an error value, and the worker then stores \<open>0\<close> under the queried symbol and
  goes on. A body that does not decode ends the process in \<open>query\<close>; a price text in
  which the pattern finds no match (a missing price is the empty text), or whose match
  \<open>ParseFloat\<close> rejects, ends the process in \<open>convertPrice\<close>. Both exits are
  \<^verbatim>\<open>log.Fatalln\<close>, with status 1.
\<close>

theorem worker_failure_outcomes:
  "(net (URL k) = GetError \<longrightarrow>
      query net k = Inr (Inl ''unable to retrive symbol data'')
      \<and> worker net k t = Inr (updateStock k 0 t))
   \<and> (net (URL k) = BadBody \<longrightarrow>
      query net k = Inl LogFatal \<and> worker net k t = Inl LogFatal)
   \<and> (net (URL k) = Decoded (Some stock) \<and> Resources (List stock) = r # rs
        \<and> match_prefix re (Price (Fields (Resource r))) = None \<longrightarrow>
      worker net k t = Inl LogFatal)
   \<and> (net (URL k) = Decoded (Some stock) \<and> Resources (List stock) = r # rs
        \<and> ParseFloat (FindString re (Price (Fields (Resource r)))) = None \<longrightarrow>
      worker net k t = Inl LogFatal)
   \<and> exitStatus LogFatal = 1"
proof -
  have a: "net (URL k) = GetError \<longrightarrow>
      query net k = Inr (Inl ''unable to retrive symbol data'')
      \<and> worker net k t = Inr (updateStock k 0 t)"
    by (simp add: worker_def query_def)
  have b: "net (URL k) = BadBody \<longrightarrow>
      query net k = Inl LogFatal \<and> worker net k t = Inl LogFatal"
    by (simp add: worker_def query_def)
  have c: "net (URL k) = Decoded (Some stock) \<and> Resources (List stock) = r # rs
        \<and> match_prefix re (Price (Fields (Resource r))) = None \<longrightarrow>
      worker net k t = Inl LogFatal"
    by (simp add: worker_fatal_price FindString_no_match ParseFloat_empty)
  have d: "net (URL k) = Decoded (Some stock) \<and> Resources (List stock) = r # rs
        \<and> ParseFloat (FindString re (Price (Fields (Resource r)))) = None \<longrightarrow>
      worker net k t = Inl LogFatal"
    by (simp add: worker_fatal_price)
  from a b c d show ?thesis by simp
qed

theorem worker_failure_outcomes_witness:
  "remote_down (URL ''AAPL'') = GetError
   \<and> worker remote_down ''AAPL'' watch_two = Inr (updateStock ''AAPL'' 0 watch_two)
   \<and> remote_garbled (URL ''AAPL'') = BadBody
   \<and> worker remote_garbled ''AAPL'' watch_two = Inl LogFatal
   \<and> remote_no_price (URL ''GOOG'') = Decoded (Some (quote ''GOOG'' ''N/A''))
   \<and> match_prefix re ''N/A'' = None
   \<and> worker remote_no_price ''GOOG'' watch_two = Inl LogFatal
   \<and> remote_range (URL ''AAPL'') = Decoded (Some (quote ''AAPL'' ''12.50 (13.75)''))
   \<and> FindString re ''12.50 (13.75)'' = ''12.50 (13.75''
   \<and> ParseFloat ''12.50 (13.75'' = None
   \<and> worker remote_range ''AAPL'' watch_two = Inl LogFatal"
proof -
  have down: "remote_down (URL ''AAPL'') = GetError"
    by (simp add: remote_down_def)
  have garbled: "remote_garbled (URL ''AAPL'') = BadBody"
    by (simp add: remote_garbled_def)
  have np: "remote_no_price (URL ''GOOG'') = Decoded (Some (quote ''GOOG'' ''N/A''))"
    by (simp add: remote_no_price_def)
  have res: "Resources (List (quote ''GOOG'' ''N/A''))
      = \<lparr>Resource = \<lparr>Classname = ''Quote'',
           Fields = \<lparr>Name = [], Price = ''N/A'', Symbol = ''GOOG'', TS = [],
             Type = ''equity'', UTCTime = [], Volume = []\<rparr>\<rparr>\<rparr> # []"
    by (simp add: quote_def)
  have nomatch: "match_prefix re ''N/A'' = None"
    by (simp add: re_def isDigit_def)
  then have nomatch': "match_prefix re (Price (Fields (Resource
       \<lparr>Resource = \<lparr>Classname = ''Quote'',
           Fields = \<lparr>Name = [], Price = ''N/A'', Symbol = ''GOOG'', TS = [],
             Type = ''equity'', UTCTime = [], Volume = []\<rparr>\<rparr>\<rparr>))) = None"
    by simp
  have rg: "remote_range (URL ''AAPL'') = Decoded (Some (quote ''AAPL'' ''12.50 (13.75)''))"
    by (simp add: remote_range_def)
  have res2: "Resources (List (quote ''AAPL'' ''12.50 (13.75)''))
      = \<lparr>Resource = \<lparr>Classname = ''Quote'',
           Fields = \<lparr>Name = [], Price = ''12.50 (13.75)'', Symbol = ''AAPL'', TS = [],
             Type = ''equity'', UTCTime = [], Volume = []\<rparr>\<rparr>\<rparr> # []"
    by (simp add: quote_def)
  have found: "FindString re ''12.50 (13.75)'' = ''12.50 (13.75''"
    by (simp add: price_eval)
  have rejected: "ParseFloat ''12.50 (13.75'' = None"
    by (simp add: price_eval)
  from found rejected have rejected': "ParseFloat (FindString re (Price (Fields (Resource
       \<lparr>Resource = \<lparr>Classname = ''Quote'',
           Fields = \<lparr>Name = [], Price = ''12.50 (13.75)'', Symbol = ''AAPL'', TS = [],
             Type = ''equity'', UTCTime = [], Volume = []\<rparr>\<rparr>\<rparr>)))) = None"
    by simp
  note i1 = worker_failure_outcomes [where net = remote_down and k = "''AAPL''" and t = watch_two]
  note i2 = worker_failure_outcomes [where net = remote_garbled and k = "''AAPL''" and t = watch_two]
  note i3 = worker_failure_outcomes [where net = remote_no_price and k = "''GOOG''"
      and t = watch_two and stock = "quote ''GOOG'' ''N/A''"
      and r = "\<lparr>Resource = \<lparr>Classname = ''Quote'',
           Fields = \<lparr>Name = [], Price = ''N/A'', Symbol = ''GOOG'', TS = [],
             Type = ''equity'', UTCTime = [], Volume = []\<rparr>\<rparr>\<rparr>" and rs = "[]"]
  note i4 = worker_failure_outcomes [where net = remote_range and k = "''AAPL''"
      and t = watch_two and stock = "quote ''AAPL'' ''12.50 (13.75)''"
      and r = "\<lparr>Resource = \<lparr>Classname = ''Quote'',
           Fields = \<lparr>Name = [], Price = ''12.50 (13.75)'', Symbol = ''AAPL'', TS = [],
             Type = ''equity'', UTCTime = [], Volume = []\<rparr>\<rparr>\<rparr>" and rs = "[]"]
  from i1 down have w1: "worker remote_down ''AAPL'' watch_two = Inr (updateStock ''AAPL'' 0 watch_two)"
    by blast
  from i2 garbled have w2: "worker remote_garbled ''AAPL'' watch_two = Inl LogFatal"
    by blast
  from i3 np res nomatch' have w3: "worker remote_no_price ''GOOG'' watch_two = Inl LogFatal"
    by blast
  from i4 rg res2 rejected' have w4: "worker remote_range ''AAPL'' watch_two = Inl LogFatal"
    by blast
  from down garbled np nomatch rg found rejected w1 w2 w3 w4 show ?thesis by blast
qed

section \<open>A cycle with failed fetches\<close>









section \<open>Claims about price extraction\<close>

text \<open>
  What \<open>FindString re\<close> can return: the empty string, or a digit, at least one more
  character, a dot and two digits. These are the only texts \<open>convertPrice\<close> is applied
  to.
\<close>

lemma match_prefix_tail_shape:
  assumes "match_prefix [(isDot, Once), (isDigit, Once), (isDigit, Once)] s = Some m"
  shows "\<exists>d1 d2. m = [CHR ''.'', d1, d2] \<and> isDigit d1 \<and> isDigit d2"
proof -
  from assms obtain c s1 where s: "s = c # s1" by (cases s) auto
  with assms have c: "c = CHR ''.''" by (auto simp: isDot_def split: if_splits)
  from assms s c obtain d1 s2 where s1: "s1 = d1 # s2" by (cases s1) (auto simp: isDot_def)
  from assms s c s1 obtain d2 s3 where s2: "s2 = d2 # s3"
    by (cases s2) (auto simp: isDot_def split: if_splits)
  from assms s c s1 s2 show ?thesis
    by (auto simp: isDot_def split: if_splits)
qed

lemma match_prefix_plus_shape:
  "match_prefix [(anyChar, Plus), (isDot, Once), (isDigit, Once), (isDigit, Once)] s = Some m
   \<Longrightarrow> \<exists>pre d1 d2. m = pre @ [CHR ''.'', d1, d2] \<and> isDigit d1 \<and> isDigit d2"
proof (induction s arbitrary: m)
  case Nil
  then show ?case by simp
next
  case (Cons c s)
  show ?case
  proof (cases "match_prefix [(anyChar, Plus), (isDot, Once), (isDigit, Once), (isDigit, Once)] s")
    case None
    with Cons.prems obtain m' where
      "match_prefix [(isDot, Once), (isDigit, Once), (isDigit, Once)] s = Some m'" and "m = c # m'"
      by (auto split: if_splits)
    with match_prefix_tail_shape [of s m'] show ?thesis
      by (metis append_Cons append_Nil)
  next
    case (Some m')
    with Cons.prems have m: "m = c # m'"
      by (auto split: if_splits)
    from Cons.IH [OF Some] obtain pre d1 d2 where
      "m' = pre @ [CHR ''.'', d1, d2]" "isDigit d1" "isDigit d2"
      by blast
    with m show ?thesis
      by (metis append_Cons)
  qed
qed

lemma FindString_shape:
  "FindString re s = [] \<or>
   (\<exists>d pre d1 d2. FindString re s = d # pre @ [CHR ''.'', d1, d2]
      \<and> isDigit d \<and> pre \<noteq> [] \<and> isDigit d1 \<and> isDigit d2)"
proof (cases "match_prefix re s")
  case None
  then show ?thesis by (simp add: FindString_def)
next
  case (Some m)
  then obtain d s1 m1 where s: "s = d # s1" and d: "isDigit d" and m: "m = d # m1"
    and m1: "match_prefix [(anyChar, Plus), (isDot, Once), (isDigit, Once), (isDigit, Once)] s1 = Some m1"
    by (cases s) (auto simp: re_def split: if_splits)
  from m1 obtain c s2 where s1: "s1 = c # s2" by (cases s1) auto
  from match_prefix_plus_shape [OF m1] obtain pre d1 d2 where
    sh: "m1 = pre @ [CHR ''.'', d1, d2]" "isDigit d1" "isDigit d2"
    by blast
  have "pre \<noteq> []"
  proof
    assume "pre = []"
    with sh have "m1 = [CHR ''.'', d1, d2]" by simp
    with m1 s1 show False
      by (cases "match_prefix [(anyChar, Plus), (isDot, Once), (isDigit, Once), (isDigit, Once)] s2")
        (auto split: if_splits dest!: match_prefix_plus_shape match_prefix_tail_shape)
  qed
  with Some m d sh show ?thesis
    by (auto simp: FindString_def)
qed

text \<open>
  A price text with one character before its only dot is never matched, so every price
  below ten ends the process.
\<close>

lemma match_prefix_needs_dot:
  "CHR ''.'' \<notin> set s \<Longrightarrow>
     match_prefix [(isDot, Once), (isDigit, Once), (isDigit, Once)] s = None"
  by (cases s) (auto simp: isDot_def)

lemma match_prefix_plus_needs_dot:
  "CHR ''.'' \<notin> set s \<Longrightarrow>
     match_prefix [(anyChar, Plus), (isDot, Once), (isDigit, Once), (isDigit, Once)] s = None"
  by (induction s) (simp_all add: match_prefix_needs_dot)

lemma FindString_one_digit:
  assumes "CHR ''.'' \<notin> set rest"
  shows "FindString re (d # CHR ''.'' # rest) = []"
  using assms
  by (simp add: FindString_def re_def match_prefix_plus_needs_dot match_prefix_needs_dot)

lemma convertPrice_one_digit:
  assumes "CHR ''.'' \<notin> set rest"
  shows "convertPrice (FindString re (d # CHR ''.'' # rest)) = Inl LogFatal"
  using assms by (simp add: FindString_one_digit convertPrice_def ParseFloat_empty)

text \<open>
  C5. The pattern of the program is \<^verbatim>\<open>^\d.+\.\d{2}\<close>, not \<^verbatim>\<open>^\d+\.\d{2}\<close>: after the
  first digit it asks for at least one more character before the dot. The price text
  \<open>123.4567 USD\<close> does convert to \<open>123.45\<close>, that is to the \<^verbatim>\<open>float64\<close> nearest to
  it, which is \<open>8687021468732621 / 2 ^ 46\<close>. But a price with a single digit before the
  dot, such as \<open>1.23\<close>, has a leading digits-dot-two-digits part and still finds no
  match: \<open>FindString\<close> returns the empty string, and \<open>convertPrice\<close> ends the process.
  A later dot followed by two digits extends the greedy match past the leading number,
  and the process ends as well.
\<close>

theorem convertPrice_one_digit_fatal:
  "FindString re ''123.4567 USD'' = ''123.45''
   \<and> convertPrice (FindString re ''123.4567 USD'') = Inr (8687021468732621 / 2 ^ 46)
   \<and> \<bar>8687021468732621 / 2 ^ 46 - 123.45\<bar> < (1 / 10 ^ 14 :: real)
   \<and> FindString re ''1.23'' = []
   \<and> convertPrice (FindString re ''1.23'') = Inl LogFatal
   \<and> worker remote_penny ''AAPL'' watch_two = Inl LogFatal
   \<and> FindString re ''12.50 (13.75)'' = ''12.50 (13.75''
   \<and> convertPrice (FindString re ''12.50 (13.75)'') = Inl LogFatal"
proof -
  have a: "FindString re ''123.4567 USD'' = ''123.45''"
    by (simp add: price_eval)
  have b: "convertPrice (FindString re ''123.4567 USD'') = Inr (8687021468732621 / 2 ^ 46)"
    by (simp add: price_eval)
  have b': "\<bar>8687021468732621 / 2 ^ 46 - 123.45\<bar> < (1 / 10 ^ 14 :: real)"
    by simp
  have c: "FindString re ''1.23'' = []"
    by (simp add: price_eval)
  have d: "convertPrice (FindString re ''1.23'') = Inl LogFatal"
    by (simp add: price_eval)
  have e: "worker remote_penny ''AAPL'' watch_two = Inl LogFatal"
    by (simp add: worker_def query_def remote_penny_def quote_def price_eval)
  have f: "FindString re ''12.50 (13.75)'' = ''12.50 (13.75''"
    by (simp add: price_eval)
  have g: "convertPrice (FindString re ''12.50 (13.75)'') = Inl LogFatal"
    by (simp add: price_eval)
  from a b b' c d e f g show ?thesis by blast
qed

section \<open>Claims about startup\<close>

lemma Split_no_sep: "sep \<notin> set s \<Longrightarrow> Split s sep = [s]"
  by (induction s) auto

lemma fmdom_foldl_add:
  "fmdom (quotes (foldl (\<lambda>t a. add a t) t as)) = fmdom (quotes t) |\<union>| fset_of_list as"
  by (induction as arbitrary: t) (auto simp: add_def)

lemma interval_foldl_add: "interval (foldl (\<lambda>t a. add a t) t as) = interval t"
  by (induction as arbitrary: t) (auto simp: add_def)

lemma main_init_usage:
  "main_init fl tbInit = Inl UsageExit \<longleftrightarrow> sArg fl = None \<or> sArg fl = Some [] \<or> iArg fl = None"
  by (auto simp: main_init_def NFlag_def symbolFlag_def Let_def split: option.splits if_splits)

lemma main_init_init:
  assumes "sArg fl = Some s" and "s \<noteq> []" and "iArg fl = Some i"
  shows "main_init fl True
    = Inr (foldl (\<lambda>t a. add a t) (NewStockWatcher (i * Second)) (Split s (CHR '','')))"
  using assms
  by (simp add: main_init_def NFlag_def symbolFlag_def intervalFlag_def Let_def Split_no_sep)

text \<open>
  C3, as stated, fails: the interval is not optional. With only the symbol list given,
  \<^verbatim>\<open>flag.NFlag()\<close> is 1, and \<open>main\<close> prints the usage and exits with status 1, although the
  flag's default value is 1.
\<close>

theorem main_init_symbols_only_counterexample:
  "intervalFlag \<lparr>sArg = Some ''AAPL'', iArg = None\<rparr> = 1
   \<and> NFlag \<lparr>sArg = Some ''AAPL'', iArg = None\<rparr> = 1
   \<and> main_init \<lparr>sArg = Some ''AAPL'', iArg = None\<rparr> True = Inl UsageExit
   \<and> exitStatus UsageExit = 1"
  by (simp add: main_init_def NFlag_def symbolFlag_def intervalFlag_def)

text \<open>
  C3, amended. At startup the program prints the usage and exits with status 1 exactly
  when the symbol list is missing or empty or the interval is missing: both flags are
  required. The default 1 of the interval flag is the value of the flag when it is not
  set, and a command line on which it is not set is rejected. With a non-empty symbol list
  \<open>s\<close> and an interval \<open>i\<close>, and the display available, the loop starts with the interval
  of \<open>i\<close> seconds and with the comma-separated parts of \<open>s\<close> as the registered symbols.
\<close>

theorem main_init_requires_both_flags:
  "(main_init fl tbInit = Inl UsageExit
      \<longleftrightarrow> sArg fl = None \<or> sArg fl = Some [] \<or> iArg fl = None)
   \<and> exitStatus UsageExit = 1
   \<and> (iArg fl = None \<longrightarrow> intervalFlag fl = 1 \<and> main_init fl tbInit = Inl UsageExit)
   \<and> (sArg fl = Some s \<and> s \<noteq> [] \<and> iArg fl = Some i \<longrightarrow>
        (\<exists>t. main_init fl True = Inr t
           \<and> interval t = i * Second
           \<and> fset (fmdom (quotes t)) = set (Split s (CHR '',''))))"
proof -
  have a: "main_init fl tbInit = Inl UsageExit
      \<longleftrightarrow> sArg fl = None \<or> sArg fl = Some [] \<or> iArg fl = None"
    by (rule main_init_usage)
  have b: "iArg fl = None \<longrightarrow> intervalFlag fl = 1 \<and> main_init fl tbInit = Inl UsageExit"
    by (simp add: main_init_usage intervalFlag_def)
  have c: "sArg fl = Some s \<and> s \<noteq> [] \<and> iArg fl = Some i \<longrightarrow>
        (\<exists>t. main_init fl True = Inr t
           \<and> interval t = i * Second
           \<and> fset (fmdom (quotes t)) = set (Split s (CHR '','')))"
  proof
    assume h: "sArg fl = Some s \<and> s \<noteq> [] \<and> iArg fl = Some i"
    let ?t = "foldl (\<lambda>t a. add a t) (NewStockWatcher (i * Second)) (Split s (CHR '',''))"
    from h have "main_init fl True = Inr ?t"
      by (simp add: main_init_init)
    moreover have "interval ?t = i * Second"
      by (simp add: interval_foldl_add NewStockWatcher_def)
    moreover have "fset (fmdom (quotes ?t)) = set (Split s (CHR '',''))"
      by (simp add: fmdom_foldl_add NewStockWatcher_def fset_of_list.rep_eq)
    ultimately show "\<exists>t. main_init fl True = Inr t
           \<and> interval t = i * Second
           \<and> fset (fmdom (quotes t)) = set (Split s (CHR '',''))"
      by blast
  qed
  from a b c show ?thesis by simp
qed

theorem main_init_requires_both_flags_witness:
  "main_init \<lparr>sArg = Some ''AAPL,GOOG'', iArg = None\<rparr> True = Inl UsageExit
   \<and> main_init \<lparr>sArg = Some [], iArg = Some 5\<rparr> True = Inl UsageExit
   \<and> main_init \<lparr>sArg = Some ''AAPL,GOOG'', iArg = Some 5\<rparr> True \<noteq> Inl UsageExit
   \<and> Split ''AAPL,GOOG'' (CHR '','') = [''AAPL'', ''GOOG'']"
proof -
  note i1 = main_init_requires_both_flags
    [where fl = "\<lparr>sArg = Some ''AAPL,GOOG'', iArg = None\<rparr>" and tbInit = True]
  note i2 = main_init_requires_both_flags
    [where fl = "\<lparr>sArg = Some [], iArg = Some 5\<rparr>" and tbInit = True]
  note i3 = main_init_requires_both_flags
    [where fl = "\<lparr>sArg = Some ''AAPL,GOOG'', iArg = Some 5\<rparr>" and tbInit = True
       and s = "''AAPL,GOOG''" and i = 5]
  from i1 have a: "main_init \<lparr>sArg = Some ''AAPL,GOOG'', iArg = None\<rparr> True = Inl UsageExit"
    by simp
  from i2 have b: "main_init \<lparr>sArg = Some [], iArg = Some 5\<rparr> True = Inl UsageExit"
    by simp
  from i3 have c: "main_init \<lparr>sArg = Some ''AAPL,GOOG'', iArg = Some 5\<rparr> True \<noteq> Inl UsageExit"
    by simp
  have d: "Split ''AAPL,GOOG'' (CHR '','') = [''AAPL'', ''GOOG'']"
    by simp
  from a b c d show ?thesis by blast
qed

section \<open>Claims about rendering\<close>




section \<open>Claims about the snapshot\<close>

lemma sort_range_order:
  assumes "range_order t ks1" and "range_order t ks2"
  shows "sort ks1 = sort ks2"
proof (rule sorted_distinct_set_unique)
  from assms show "distinct (sort ks1)" "distinct (sort ks2)"
    by (simp_all add: range_order_def)
  from assms show "set (sort ks1) = set (sort ks2)"
    by (simp add: range_order_def)
qed simp_all

lemma ln_sym_formatLines: "map ln_sym (formatLines t pos keys) = keys"
  by (induction keys arbitrary: pos) (simp_all add: formatLine_def)

lemma ln_row_formatLines: "map ln_row (formatLines t pos keys) = [pos..<pos + length keys]"
  by (induction keys arbitrary: pos) (simp_all add: formatLine_def upt_rec)

lemma fcard_fmdom_range_order:
  assumes "range_order t ks"
  shows "length ks = fcard (fmdom (quotes t))"
proof -
  from assms have dist: "distinct ks" and keys: "set ks = fset (fmdom (quotes t))"
    by (simp_all add: range_order_def)
  from dist have "card (set ks) = length ks"
    by (rule distinct_card)
  with keys show ?thesis
    by (metis fcard.rep_eq)
qed

text \<open>
  C8. The program reads the store through the sorted list of its keys. Whatever the two
  orders in which two \<^verbatim>\<open>range\<close> loops over the same store yield the keys, the two
  sequences of (symbol, entry) pairs are equal, and so are the printed lines. The
  sequence is in strictly ascending symbol order, has exactly one pair for every
  registered symbol and none else, and every pair carries the entry the store holds for
  its symbol. The lines are printed in that order, at rows 1, 2, ...
\<close>

theorem snapshot_sorted_stable:
  assumes "range_order t ks1" and "range_order t ks2"
  shows "snapshot t ks1 = snapshot t ks2
    \<and> formatData t ks1 = formatData t ks2
    \<and> sorted_wrt (<) (map fst (snapshot t ks1))
    \<and> distinct (map fst (snapshot t ks1))
    \<and> set (map fst (snapshot t ks1)) = fset (fmdom (quotes t))
    \<and> length (snapshot t ks1) = fcard (fmdom (quotes t))
    \<and> (\<forall>(s, e)\<in>set (snapshot t ks1). fmlookup (quotes t) s = Some e)
    \<and> map ln_sym (formatData t ks1) = map fst (snapshot t ks1)
    \<and> map ln_row (formatData t ks1) = [1..<Suc (length ks1)]"
proof -
  from assms have eq: "sort ks1 = sort ks2"
    by (rule sort_range_order)
  from assms(1) have dist: "distinct ks1" and keys: "set ks1 = fset (fmdom (quotes t))"
    by (simp_all add: range_order_def)
  have fst_snap: "map fst (snapshot t ks1) = sort ks1"
    by (simp add: snapshot_def comp_def)
  from eq have a: "snapshot t ks1 = snapshot t ks2"
    by (simp add: snapshot_def)
  from eq have b: "formatData t ks1 = formatData t ks2"
    by (simp add: formatData_def)
  from dist have c: "sorted_wrt (<) (map fst (snapshot t ks1))"
    by (simp add: fst_snap strict_sorted_iff)
  from dist have d: "distinct (map fst (snapshot t ks1))"
    by (simp add: fst_snap)
  from keys have e: "set (map fst (snapshot t ks1)) = fset (fmdom (quotes t))"
    by (simp add: fst_snap)
  from assms(1) have f: "length (snapshot t ks1) = fcard (fmdom (quotes t))"
    by (simp add: snapshot_def fcard_fmdom_range_order)
  have g: "\<forall>(s, e)\<in>set (snapshot t ks1). fmlookup (quotes t) s = Some e"
  proof (clarify)
    fix s e
    assume "(s, e) \<in> set (snapshot t ks1)"
    then have "s \<in> set ks1" and e: "e = quotes_at (quotes t) s"
      by (auto simp: snapshot_def)
    with keys have "s |\<in>| fmdom (quotes t)"
      by simp
    then obtain m where "fmlookup (quotes t) s = Some m"
      by (auto simp: fmdom.rep_eq dom_def fmlookup_dom_iff)
    with e show "fmlookup (quotes t) s = Some e"
      by (simp add: quotes_at_def)
  qed
  have h: "map ln_sym (formatData t ks1) = map fst (snapshot t ks1)"
    by (simp add: fst_snap formatData_def ln_sym_formatLines)
  have i: "map ln_row (formatData t ks1) = [1..<Suc (length ks1)]"
    by (simp add: formatData_def ln_row_formatLines)
  from a b c d e f g h i show ?thesis by blast
qed

theorem snapshot_sorted_stable_witness:
  "range_order watch_two [''GOOG'', ''AAPL'']
   \<and> range_order watch_two [''AAPL'', ''GOOG'']
   \<and> snapshot watch_two [''GOOG'', ''AAPL''] = snapshot watch_two [''AAPL'', ''GOOG'']
   \<and> map fst (snapshot watch_two [''GOOG'', ''AAPL'']) = [''AAPL'', ''GOOG'']
   \<and> map ln_row (formatData watch_two [''GOOG'', ''AAPL'']) = [1, 2]"
proof -
  have r1: "range_order watch_two [''GOOG'', ''AAPL'']"
    by (auto simp: range_order_def fmdom_watch)
  have r2: "range_order watch_two [''AAPL'', ''GOOG'']"
    by (auto simp: range_order_def fmdom_watch)
  have rows: "[1..<Suc (length [''GOOG'', ''AAPL''])] = [1, 2]"
    by (simp add: upt_rec)
  note inst = snapshot_sorted_stable [OF r1 r2, unfolded rows]
  from inst have a: "snapshot watch_two [''GOOG'', ''AAPL''] = snapshot watch_two [''AAPL'', ''GOOG'']"
    by blast
  from inst have b: "map ln_row (formatData watch_two [''GOOG'', ''AAPL'']) = [1, 2]"
    by blast
  have "map fst (snapshot watch_two [''AAPL'', ''GOOG'']) = [''AAPL'', ''GOOG'']"
    by (simp add: snapshot_def)
  with a have c: "map fst (snapshot watch_two [''GOOG'', ''AAPL'']) = [''AAPL'', ''GOOG'']"
    by simp
  from r1 r2 a b c show ?thesis by blast
qed

end
